theory Spec2Isabelle
  imports Main "HOL-Library.Word"
begin

section \<open>Article ids\<close>

text \<open>
  The article API of \<^verbatim>\<open>src/api-article.go\<close> addresses a draft by its bare guid and a
  version by \<^verbatim>\<open>guid:version\<close>, the version being the \<^verbatim>\<open>int64\<close> reading
  \<^verbatim>\<open>UnixNano()\<close> of the submit instant. Go strings are byte sequences: \<open>string\<close>.
\<close>

type_synonym int64 = "64 word"

text \<open>\<^verbatim>\<open>strings.LastIndex(s, ":")\<close>, for a one-byte separator: the index of its last
  occurrence, or -1.\<close>

fun LastIndex :: "string \<Rightarrow> char \<Rightarrow> int" where
  "LastIndex [] c = - 1"
| "LastIndex (x # xs) c =
     (let r = LastIndex xs c
      in if 0 \<le> r then r + 1 else if x = c then 0 else - 1)"

text \<open>
  \<^verbatim>\<open>strconv.ParseInt(s, 10, 64)\<close> of the Go library: an optional sign, then
  \<^verbatim>\<open>ParseUint\<close> on the rest, which reads decimal digits from the left and stops at the
  first byte that is no digit (a syntax error) or at the first digit that takes the value
  past \<^verbatim>\<open>1<<64 - 1\<close> (a range error); then the signed range check. The value Go
  returns beside an error is dropped: \<^verbatim>\<open>parseArticleId\<close> does not read it.
\<close>

datatype NumError = ErrSyntax | ErrRange

definition is_digit :: "char \<Rightarrow> bool" where
  "is_digit c = (48 \<le> (of_char c :: nat) \<and> (of_char c :: nat) \<le> 57)"

definition digit_val :: "char \<Rightarrow> nat" where
  "digit_val c = of_char c - 48"

definition maxUint64 :: nat where
  "maxUint64 = 2 ^ 64 - 1"

fun ParseUint_loop :: "nat \<Rightarrow> string \<Rightarrow> NumError + nat" where
  "ParseUint_loop n [] = Inr n"
| "ParseUint_loop n (c # cs) =
     (if \<not> is_digit c then Inl ErrSyntax
      else if maxUint64 < n * 10 + digit_val c then Inl ErrRange
      else ParseUint_loop (n * 10 + digit_val c) cs)"

definition ParseUint :: "string \<Rightarrow> NumError + nat" where
  "ParseUint s = (if s = [] then Inl ErrSyntax else ParseUint_loop 0 s)"

definition ParseInt :: "string \<Rightarrow> NumError + int64" where
  "ParseInt s0 =
     (if s0 = [] then Inl ErrSyntax
      else
        let neg = (hd s0 = CHR ''-'');
            s = (if hd s0 = CHR ''+'' \<or> hd s0 = CHR ''-'' then tl s0 else s0)
        in case ParseUint s of
             Inl e \<Rightarrow> Inl e
           | Inr un \<Rightarrow>
               if \<not> neg \<and> 2 ^ 63 \<le> un then Inl ErrRange
               else if neg \<and> 2 ^ 63 < un then Inl ErrRange
               else Inr (if neg then - word_of_nat un else word_of_nat un))"

text \<open>\<^verbatim>\<open>parseArticleId\<close> (lines 173-186): the guid, the version and the error.\<close>

definition parseArticleId :: "string \<Rightarrow> string \<times> int64 \<times> NumError option" where
  "parseArticleId s =
     (let idx = LastIndex s (CHR '':'')
      in if idx \<le> 0 then (s, 0, None)
         else
           let guid = take (nat idx) s
           in case ParseInt (drop (nat idx + 1) s) of
                Inr ver \<Rightarrow> (guid, ver, None)
              | Inl err \<Rightarrow> (guid, 0, Some err))"

text \<open>The \<^verbatim>\<open>%v\<close> of \<^verbatim>\<open>fmt.Sprintf\<close> on an \<^verbatim>\<open>int64\<close>: its decimal digits, after
  a minus sign when it is negative.\<close>

definition digit_char :: "nat \<Rightarrow> char" where
  "digit_char d = (''0123456789'' ! d)"

fun decimal :: "nat \<Rightarrow> string" where
  "decimal n = (if n < 10 then [digit_char n] else decimal (n div 10) @ [digit_char (n mod 10)])"

declare decimal.simps [simp del]

definition FormatInt :: "int64 \<Rightarrow> string" where
  "FormatInt v =
     (if sint v < 0 then CHR ''-'' # decimal (nat (- sint v)) else decimal (nat (sint v)))"

section \<open>Articles and their JSON form\<close>

text \<open>
  A \<^verbatim>\<open>time.Time\<close> is the instant it denotes, in nanoseconds since the Unix epoch;
  \<^verbatim>\<open>UnixNano()\<close> reads it as an \<^verbatim>\<open>int64\<close>. \<^verbatim>\<open>JSONTime.MarshalJSON\<close> prints
  the layout \<^verbatim>\<open>2006-01-02T15:04:05.000Z\<close>, which keeps milliseconds, and
  \<^verbatim>\<open>UnmarshalJSON\<close> reads that layout back: \<open>JSONTime_wire\<close> is the instant that
  comes back. \<^verbatim>\<open>IsZero\<close> holds of January 1, year 1, 00:00 UTC.
\<close>

type_synonym Time = int

definition UnixNano :: "Time \<Rightarrow> int64" where
  "UnixNano t = word_of_int t"

definition JSONTime_wire :: "Time \<Rightarrow> Time" where
  "JSONTime_wire t = t - t mod 1000000"

definition IsZero :: "Time \<Rightarrow> bool" where
  "IsZero t = (t = - 62135596800000000000)"

text \<open>The struct \<^verbatim>\<open>Article\<close> (lines 70-85); a \<^verbatim>\<open>*JSONTime\<close> is an option, \<open>None\<close>
  the nil pointer. The field \<^verbatim>\<open>Id\<close> is \<open>ArtId\<close> here.\<close>

record Article =
  ArtId :: string
  Guid :: string
  Version :: int64
  Headline :: string
  Summary :: string
  Content :: string
  Tag :: "string list"
  Note :: string
  CreatedAt :: "Time option"
  CreatedBy :: string
  RevisedAt :: "Time option"
  RevisedBy :: string
  FromVersion :: int64
  LockedBy :: string

text \<open>The zero value \<^verbatim>\<open>Article{}\<close>.\<close>

definition Article0 :: Article where
  "Article0 =
     \<lparr>ArtId = [], Guid = [], Version = 0, Headline = [], Summary = [], Content = [],
      Tag = [], Note = [], CreatedAt = None, CreatedBy = [], RevisedAt = None,
      RevisedBy = [], FromVersion = 0, LockedBy = []\<rparr>"

definition NilZeroTimeFields :: "Article \<Rightarrow> Article" where
  "NilZeroTimeFields a =
     a\<lparr>CreatedAt := (case CreatedAt a of
                       None \<Rightarrow> None
                     | Some t \<Rightarrow> if IsZero t then None else Some t),
       RevisedAt := (case RevisedAt a of
                       None \<Rightarrow> None
                     | Some t \<Rightarrow> if IsZero t then None else Some t)\<rparr>"

text \<open>
  Every field of \<^verbatim>\<open>Article\<close> is tagged \<^verbatim>\<open>omitempty\<close>: \<^verbatim>\<open>json.Marshal\<close> leaves
  out a field that holds its zero value, and decoding gives a field that is absent its zero
  value. So a JSON object written from an \<^verbatim>\<open>Article\<close> is again an \<open>Article\<close>, an
  empty field standing for an absent key. \<open>wire a\<close> is what decoding the JSON of \<open>a\<close>
  gives: \<open>a\<close> with its times at the resolution of the layout.
\<close>

definition wire :: "Article \<Rightarrow> Article" where
  "wire a =
     a\<lparr>CreatedAt := map_option JSONTime_wire (CreatedAt a),
       RevisedAt := map_option JSONTime_wire (RevisedAt a)\<rparr>"

text \<open>
  The request body as \<^verbatim>\<open>ioutil.ReadAll\<close> and \<^verbatim>\<open>json.Unmarshal\<close> see it: bytes that
  cannot be read, bytes that are no JSON of an article, or the JSON of an article.
  \<^verbatim>\<open>unmarshalArticle\<close> (lines 97-104) decodes and clears zero times.
\<close>

datatype request_body = Unreadable | Malformed | Encoded Article

fun unmarshalArticle :: "request_body \<Rightarrow> Article option" where
  "unmarshalArticle (Encoded a) = Some (NilZeroTimeFields a)"
| "unmarshalArticle Malformed = None"
| "unmarshalArticle Unreadable = None"

text \<open>What the handlers read of the request: \<^verbatim>\<open>StringFromReq(r, CtxKeyId)\<close>,
  \<^verbatim>\<open>AuthFromReq(r).Username\<close> and \<^verbatim>\<open>r.Body\<close>.\<close>

record request =
  req_id :: string
  req_user :: string
  req_body :: request_body

section \<open>The document store\<close>

text \<open>
  The handlers talk to Elasticsearch through the client \<^verbatim>\<open>github.com/yizha/elastic\<close>;
  neither is part of the repository. The store is modelled by what the calls the handlers
  make do there: one index with the three types of \<^verbatim>\<open>app.Conf.ArticleIndexTypes\<close>,
  each a map from the document id to the document's \<^verbatim>\<open>_source\<close>.

  The world beside the rows is what a handler cannot control. \<open>pending\<close> holds, for
  each call that reaches the store, what happens around it: nothing (\<open>Quiet\<close>, also when
  the list is used up), a call that fails on the way (\<open>Down\<close>: the client returns an error
  that is no 404 and the rows stay), or another service instance that removes a draft just
  before the call is served (\<open>OtherDiscard\<close>; the locks of lines 40-43 are local to one
  process). \<open>auto_ids\<close> are the ids the store gives to documents indexed without one.
  \<open>calls\<close> records the calls that reached the store, in order.
\<close>

datatype doc_type = TDraft | TVersion | TPublish

datatype event = Quiet | Down | OtherDiscard string

datatype call =
  GetCall doc_type string
  | IndexCall doc_type string
  | UpdateCall doc_type string
  | DeleteCall doc_type string

record world =
  rows :: "doc_type \<Rightarrow> string \<Rightarrow> Article option"
  pending :: "event list"
  auto_ids :: "string list"
  calls :: "call list"

datatype es_error = NotFound | Failure

definition next_event :: "world \<Rightarrow> event" where
  "next_event w = (case pending w of [] \<Rightarrow> Quiet | e # es \<Rightarrow> e)"

definition put_row :: "doc_type \<Rightarrow> string \<Rightarrow> Article \<Rightarrow> world \<Rightarrow> world" where
  "put_row ty i src w = w\<lparr>rows := (rows w)(ty := (rows w ty)(i \<mapsto> src))\<rparr>"

definition del_row :: "doc_type \<Rightarrow> string \<Rightarrow> world \<Rightarrow> world" where
  "del_row ty i w = w\<lparr>rows := (rows w)(ty := (rows w ty)(i := None))\<rparr>"

definition interfere :: "event \<Rightarrow> world \<Rightarrow> world" where
  "interfere e w = (case e of OtherDiscard g \<Rightarrow> del_row TDraft g w | Quiet \<Rightarrow> w | Down \<Rightarrow> w)"

text \<open>A call reaches the store: its event is taken and applied, the call is recorded;
  the flag tells whether the store answers.\<close>

definition arrive :: "call \<Rightarrow> world \<Rightarrow> bool \<times> world" where
  "arrive c w =
     (let e = next_event w
      in (e \<noteq> Down, (interfere e w)\<lparr>pending := tl (pending w), calls := calls w @ [c]\<rparr>))"

text \<open>The source filter \<^verbatim>\<open>FetchSourceContext(true).Include(...)\<close>: the keys it names are
  kept, by their JSON names.\<close>

definition fetch_source :: "string list \<Rightarrow> Article \<Rightarrow> Article" where
  "fetch_source fs src =
     \<lparr>ArtId = (if ''id'' \<in> set fs then ArtId src else []),
      Guid = (if ''guid'' \<in> set fs then Guid src else []),
      Version = (if ''version'' \<in> set fs then Version src else 0),
      Headline = (if ''headline'' \<in> set fs then Headline src else []),
      Summary = (if ''summary'' \<in> set fs then Summary src else []),
      Content = (if ''content'' \<in> set fs then Content src else []),
      Tag = (if ''tag'' \<in> set fs then Tag src else []),
      Note = (if ''note'' \<in> set fs then Note src else []),
      CreatedAt = (if ''created_at'' \<in> set fs then CreatedAt src else None),
      CreatedBy = (if ''created_by'' \<in> set fs then CreatedBy src else []),
      RevisedAt = (if ''revised_at'' \<in> set fs then RevisedAt src else None),
      RevisedBy = (if ''revised_by'' \<in> set fs then RevisedBy src else []),
      FromVersion = (if ''from_version'' \<in> set fs then FromVersion src else 0),
      LockedBy = (if ''locked_by'' \<in> set fs then LockedBy src else [])\<rparr>"

text \<open>
  Modelled from the spec: the store's get-by-id, for \<^verbatim>\<open>client.Get()...Do(ctx)\<close>. A call
  with no id fails in the client and never leaves. An absent document is the client's 404
  error (\<open>NotFound\<close>, what \<^verbatim>\<open>elastic.IsNotFound\<close> tests); the reply \<open>Inr None\<close>, a reply
  whose \<^verbatim>\<open>Found\<close> is false, is handled by \<^verbatim>\<open>getArticle\<close> the same way and never sent
  by this store. A read sees every write made before it: the delay of
  \<^verbatim>\<open>Realtime(false)\<close>, a read served from the last refresh, is left out.
\<close>

definition es_get ::
  "doc_type \<Rightarrow> string \<Rightarrow> string list \<Rightarrow> world \<Rightarrow> (es_error + Article option) \<times> world" where
  "es_get ty i source w =
     (if i = [] then (Inl Failure, w)
      else
        case arrive (GetCall ty i) w of
          (False, w') \<Rightarrow> (Inl Failure, w')
        | (True, w') \<Rightarrow>
            (case rows w' ty i of
               None \<Rightarrow> (Inl NotFound, w')
             | Some src \<Rightarrow> (Inr (Some (fetch_source source src)), w')))"

text \<open>
  Modelled from the spec: the store's create, for \<^verbatim>\<open>client.Index()...Do(ctx)\<close>; the reply
  is the document's id and the flag \<^verbatim>\<open>Created\<close>. With \<^verbatim>\<open>OpType(ESIndexOpCreate)\<close>
  (\<open>create_only\<close>) the write is create-only: when the id exists the store does not
  overwrite and reports "not created". Without an id the store gives the document the next
  of its own ids; a store with none left to give does not answer.
\<close>

definition es_index ::
  "doc_type \<Rightarrow> string \<Rightarrow> bool \<Rightarrow> Article \<Rightarrow> world \<Rightarrow> (es_error + string \<times> bool) \<times> world" where
  "es_index ty i create_only body w =
     (case arrive (IndexCall ty i) w of
        (False, w') \<Rightarrow> (Inl Failure, w')
      | (True, w') \<Rightarrow>
          if i = [] \<and> auto_ids w' = [] then (Inl Failure, w')
          else
            let k = (if i = [] then hd (auto_ids w') else i);
                w'' = (if i = [] then w'\<lparr>auto_ids := tl (auto_ids w')\<rparr> else w')
            in case rows w'' ty k of
                 None \<Rightarrow> (Inr (k, True), put_row ty k (wire body) w'')
               | Some old \<Rightarrow>
                   if create_only then (Inr (k, False), w'')
                   else (Inr (k, False), put_row ty k (wire body) w''))"

text \<open>
  The script \<^verbatim>\<open>ESScriptSaveArticle\<close> (lines 27-38) on a document's source: \<open>None\<close> is
  \<^verbatim>\<open>ctx.op = "none"\<close>. Drafts are written from \<^verbatim>\<open>Article\<close> values only, so the key
  \<^verbatim>\<open>locked_by\<close> of a draft is absent exactly when \<open>LockedBy\<close> is empty; the script then
  compares \<^verbatim>\<open>null\<close> with the string \<^verbatim>\<open>params.username\<close>, and they differ.
\<close>

text \<open>The script's \<^verbatim>\<open>params\<close>, each key with the prefix \<open>p_\<close>.\<close>

record ScriptParams =
  p_checkuser :: bool
  p_headline :: string
  p_summary :: string
  p_content :: string
  p_tag :: "string list"
  p_note :: string
  p_username :: string
  p_revised_at :: Time

definition ESScriptSaveArticle :: "ScriptParams \<Rightarrow> Article \<Rightarrow> Article option" where
  "ESScriptSaveArticle params src =
     (if p_checkuser params \<and> (LockedBy src = [] \<or> LockedBy src \<noteq> p_username params) then None
      else Some (src\<lparr>Headline := p_headline params, Summary := p_summary params,
                      Content := p_content params, Tag := p_tag params, Note := p_note params\<rparr>))"

text \<open>
  Modelled from the spec: the store's scripted update, for
  \<^verbatim>\<open>client.Update()...Script(script).DetectNoop(b).Do(ctx)\<close>; the reply is the field
  \<^verbatim>\<open>Result\<close>. A missing document is the client's 404 error. Otherwise the script decides:
  when it sets \<^verbatim>\<open>ctx.op = "none"\<close> nothing is written and the result is \<^verbatim>\<open>noop\<close>; else
  the source it leaves is written and the result is \<^verbatim>\<open>updated\<close>, also when that source
  equals the old one: Elasticsearch compares old and new source only for an update by
  partial document, so the flag \<open>detect_noop\<close> changes nothing in a scripted update.
\<close>

definition es_update_script ::
  "doc_type \<Rightarrow> string \<Rightarrow> ScriptParams \<Rightarrow> bool \<Rightarrow> world \<Rightarrow> (es_error + string) \<times> world" where
  "es_update_script ty i params detect_noop w =
     (if i = [] then (Inl Failure, w)
      else
        case arrive (UpdateCall ty i) w of
          (False, w') \<Rightarrow> (Inl Failure, w')
        | (True, w') \<Rightarrow>
            (case rows w' ty i of
               None \<Rightarrow> (Inl NotFound, w')
             | Some src \<Rightarrow>
                 (case ESScriptSaveArticle params src of
                    None \<Rightarrow> (Inr ''noop'', w')
                  | Some src' \<Rightarrow> (Inr ''updated'', put_row ty i src' w'))))"

text \<open>An update by partial document merges the document into the stored source: a key of
  the document replaces the stored one, a key the document lacks stays as stored.\<close>

definition merge_source :: "Article \<Rightarrow> Article \<Rightarrow> Article" where
  "merge_source old d =
     \<lparr>ArtId = (if ArtId d = [] then ArtId old else ArtId d),
      Guid = (if Guid d = [] then Guid old else Guid d),
      Version = (if Version d = 0 then Version old else Version d),
      Headline = (if Headline d = [] then Headline old else Headline d),
      Summary = (if Summary d = [] then Summary old else Summary d),
      Content = (if Content d = [] then Content old else Content d),
      Tag = (if Tag d = [] then Tag old else Tag d),
      Note = (if Note d = [] then Note old else Note d),
      CreatedAt = (case CreatedAt d of None \<Rightarrow> CreatedAt old | Some t \<Rightarrow> Some t),
      CreatedBy = (if CreatedBy d = [] then CreatedBy old else CreatedBy d),
      RevisedAt = (case RevisedAt d of None \<Rightarrow> RevisedAt old | Some t \<Rightarrow> Some t),
      RevisedBy = (if RevisedBy d = [] then RevisedBy old else RevisedBy d),
      FromVersion = (if FromVersion d = 0 then FromVersion old else FromVersion d),
      LockedBy = (if LockedBy d = [] then LockedBy old else LockedBy d)\<rparr>"

text \<open>
  Modelled from the spec: the store's upsert, for
  \<^verbatim>\<open>client.Update()...Doc(article).DocAsUpsert(true).Do(ctx)\<close>, which is Elasticsearch's
  update by partial document. When the id is absent the document is inserted as it is;
  when it exists the document is merged into the stored source, and a merge that changes
  nothing is reported as \<^verbatim>\<open>noop\<close>. The document is the JSON of the \<^verbatim>\<open>Article\<close>, so
  it has a key for each field that is not empty and for no other.
\<close>

definition es_update_doc ::
  "doc_type \<Rightarrow> string \<Rightarrow> Article \<Rightarrow> world \<Rightarrow> (es_error + string) \<times> world" where
  "es_update_doc ty i d w =
     (if i = [] then (Inl Failure, w)
      else
        case arrive (UpdateCall ty i) w of
          (False, w') \<Rightarrow> (Inl Failure, w')
        | (True, w') \<Rightarrow>
            (case rows w' ty i of
               None \<Rightarrow> (Inr ''created'', put_row ty i (wire d) w')
             | Some old \<Rightarrow>
                 if merge_source old (wire d) = old then (Inr ''noop'', w')
                 else (Inr ''updated'', put_row ty i (merge_source old (wire d)) w')))"

text \<open>
  Modelled from the spec: the store's delete, for \<^verbatim>\<open>client.Delete()...Do(ctx)\<close>. A
  missing document is the client's 404 error.
\<close>

definition es_delete :: "doc_type \<Rightarrow> string \<Rightarrow> world \<Rightarrow> (es_error + unit) \<times> world" where
  "es_delete ty i w =
     (if i = [] then (Inl Failure, w)
      else
        case arrive (DeleteCall ty i) w of
          (False, w') \<Rightarrow> (Inl Failure, w')
        | (True, w') \<Rightarrow>
            (case rows w' ty i of
               None \<Rightarrow> (Inl NotFound, w')
             | Some src \<Rightarrow> (Inr (), del_row ty i w')))"

section \<open>The handlers\<close>

text \<open>
  A response body is a text or the JSON of an article (\<open>Json a\<close> is what a client
  decodes from \<^verbatim>\<open>json.Marshal(a)\<close>). A message built by \<^verbatim>\<open>fmt.Sprintf\<close> is
  carried as its format string.
\<close>

datatype resp_body = Text string | Json Article

record HttpResponseData =
  Status :: nat
  Body :: resp_body
  Data :: "Article option"

text \<open>
  Modelled from the spec: the response constructors, which are not in
  \<^verbatim>\<open>src/api-article.go\<close>. \<^verbatim>\<open>CreateRespData\<close> takes the status and the body (its
  content type follows from the body); the others fix the status their name says.
\<close>

definition CreateRespData :: "nat \<Rightarrow> resp_body \<Rightarrow> HttpResponseData" where
  "CreateRespData st b = \<lparr>Status = st, Body = b, Data = None\<rparr>"

text \<open>Modelled from the spec: NotFound is the status 404, with a text message.\<close>

definition CreateNotFoundRespData :: "string \<Rightarrow> HttpResponseData" where
  "CreateNotFoundRespData msg = CreateRespData 404 (Text msg)"

text \<open>Modelled from the spec: Forbidden is the status 403, with a text message.\<close>

definition CreateForbiddenRespData :: "string \<Rightarrow> HttpResponseData" where
  "CreateForbiddenRespData msg = CreateRespData 403 (Text msg)"

text \<open>Modelled from the spec: Internal is the status 500, with a text message.\<close>

definition CreateInternalServerErrorRespData :: "string \<Rightarrow> HttpResponseData" where
  "CreateInternalServerErrorRespData msg = CreateRespData 500 (Text msg)"

text \<open>\<^verbatim>\<open>marshalArticle\<close> (lines 163-171). \<^verbatim>\<open>json.Marshal\<close> does not fail on an
  \<^verbatim>\<open>Article\<close> (\<^verbatim>\<open>MarshalJSON\<close> returns no error), so its error branch is never
  taken.\<close>

definition marshalArticle :: "Article \<Rightarrow> nat \<Rightarrow> HttpResponseData" where
  "marshalArticle a st = CreateRespData st (Json (wire a))"

text \<open>
  \<^verbatim>\<open>getArticle\<close> (lines 128-161) returns either a response and no article (\<open>Inl\<close>) or an
  article and no response (\<open>Inr\<close>). A stored source was written from an \<^verbatim>\<open>Article\<close>,
  so it decodes. \<^verbatim>\<open>getFullArticle\<close> (lines 106-126) asks for every key but \<^verbatim>\<open>id\<close>.
\<close>

definition getArticle ::
  "doc_type \<Rightarrow> string \<Rightarrow> string list \<Rightarrow> world \<Rightarrow> (HttpResponseData + Article) \<times> world" where
  "getArticle ty i source w =
     (case es_get ty i source w of
        (Inl err, w') \<Rightarrow>
          if err = NotFound
          then (Inl (CreateNotFoundRespData ''article %v not found in index %v type %v!''), w')
          else (Inl (CreateInternalServerErrorRespData
                      ''failed to query elasticsearch, error: %v''), w')
      | (Inr None, w') \<Rightarrow>
          (Inl (CreateNotFoundRespData ''article %v not found in index %v type %v!''), w')
      | (Inr (Some src), w') \<Rightarrow> (Inr (src\<lparr>ArtId := i\<rparr>), w'))"

definition getFullArticle ::
  "doc_type \<Rightarrow> string \<Rightarrow> world \<Rightarrow> (HttpResponseData + Article) \<times> world" where
  "getFullArticle ty i w =
     getArticle ty i
       [''guid'', ''headline'', ''summary'', ''content'', ''tag'', ''created_at'',
        ''created_by'', ''revised_at'', ''revised_by'', ''version'', ''from_version'',
        ''note'', ''locked_by''] w"

text \<open>\<^verbatim>\<open>createArticle\<close> (lines 217-248).\<close>

definition createArticle :: "world \<Rightarrow> request \<Rightarrow> HttpResponseData \<times> world" where
  "createArticle w r =
     (let user = req_user r;
          article = Article0\<lparr>LockedBy := user, FromVersion := 0\<rparr>
      in case es_index TDraft [] False article w of
           (Inl err, w') \<Rightarrow>
             (CreateInternalServerErrorRespData ''error creating new doc: %v'', w')
         | (Inr (rid, created), w') \<Rightarrow>
             let article = article\<lparr>ArtId := rid, Guid := rid, CreatedBy := user,
                                    LockedBy := user\<rparr>
             in ((CreateRespData 200 (Json (wire article)))\<lparr>Data := Some article\<rparr>, w'))"

text \<open>\<^verbatim>\<open>saveArticle\<close> (lines 250-306); \<open>now\<close> is \<^verbatim>\<open>time.Now().UTC()\<close>.\<close>

definition saveArticle :: "world \<Rightarrow> request \<Rightarrow> Time \<Rightarrow> HttpResponseData \<times> world" where
  "saveArticle w r now =
     (if req_body r = Unreadable
      then (CreateInternalServerErrorRespData ''failed to read request body, error: %v'', w)
      else
        case unmarshalArticle (req_body r) of
          None \<Rightarrow>
            (CreateInternalServerErrorRespData ''failed to unmarshal article, error: %v'', w)
        | Some article \<Rightarrow>
            let i = req_id r;
                params = \<lparr>p_checkuser = True, p_headline = Headline article,
                          p_summary = Summary article, p_content = Content article,
                          p_tag = Tag article, p_note = Note article,
                          p_username = req_user r, p_revised_at = now\<rparr>
            in case es_update_script TDraft i params True w of
                 (Inl err, w') \<Rightarrow>
                   if err = NotFound
                   then (CreateNotFoundRespData ''article %v not found!'', w')
                   else (CreateInternalServerErrorRespData
                           ''failed to update article, error: %v'', w')
               | (Inr result, w') \<Rightarrow>
                   if result = ''noop''
                   then (CreateForbiddenRespData
                           ''Update article locked by another user is not allowed!'', w')
                   else if result = ''updated'' then (CreateRespData 200 (Text []), w')
                   else (CreateInternalServerErrorRespData
                           ''unknown result in update response: %v'', w'))"

text \<open>\<^verbatim>\<open>submitArticle\<close> (lines 308-401); \<open>ts\<close> is \<^verbatim>\<open>time.Now().UTC()\<close>.\<close>

definition submitArticle :: "world \<Rightarrow> request \<Rightarrow> Time \<Rightarrow> HttpResponseData \<times> world" where
  "submitArticle w r ts =
     (if req_body r = Unreadable
      then (CreateInternalServerErrorRespData ''failed to read request body, error: %v'', w)
      else
        case unmarshalArticle (req_body r) of
          None \<Rightarrow>
            (CreateInternalServerErrorRespData ''failed to unmarshal article, error: %v'', w)
        | Some article \<Rightarrow>
            let guid = req_id r;
                user = req_user r;
                params = \<lparr>p_checkuser = False, p_headline = Headline article,
                          p_summary = Summary article, p_content = Content article,
                          p_tag = Tag article, p_note = Note article,
                          p_username = user, p_revised_at = ts\<rparr>
            in case es_update_script TDraft guid params False w of
                 (Inl err, w1) \<Rightarrow>
                   (CreateInternalServerErrorRespData
                      ''failed to save article draft %v, error: %v'', w1)
               | (Inr result, w1) \<Rightarrow>
                   let ver = UnixNano ts;
                       verGuid = guid @ '':'' @ FormatInt ver;
                       article = article\<lparr>ArtId := verGuid, Version := ver\<rparr>;
                       article =
                         (if FromVersion article = 0
                          then article\<lparr>CreatedAt := Some ts, CreatedBy := user,
                                       RevisedAt := None, RevisedBy := []\<rparr>
                          else article\<lparr>RevisedAt := Some ts, RevisedBy := user\<rparr>);
                       article = article\<lparr>LockedBy := []\<rparr>
                   in case es_index TVersion (ArtId article) True article w1 of
                        (Inl err, w2) \<Rightarrow>
                          (CreateInternalServerErrorRespData
                             ''failed to create new article version, error: %v'', w2)
                      | (Inr (rid, created), w2) \<Rightarrow>
                          if \<not> created
                          then (CreateInternalServerErrorRespData
                                  ''no reason but article new version is not created!'', w2)
                          else
                            case es_delete TDraft (Guid article) w2 of
                              (Inl err, w3) \<Rightarrow>
                                (CreateInternalServerErrorRespData
                                   ''failed to delete article draft, error: %v'', w3)
                            | (Inr u, w3) \<Rightarrow>
                                (marshalArticle
                                   (article\<lparr>Headline := [], Summary := [], Content := [],
                                            Tag := [], Note := []\<rparr>) 200, w3))"

text \<open>\<^verbatim>\<open>discardArticle\<close> (lines 403-425).\<close>

definition discardArticle :: "world \<Rightarrow> request \<Rightarrow> HttpResponseData \<times> world" where
  "discardArticle w r =
     (case es_delete TDraft (req_id r) w of
        (Inl err, w') \<Rightarrow>
          if err = NotFound then (CreateNotFoundRespData ''article %v not found!'', w')
          else (CreateInternalServerErrorRespData
                  ''failed to discard article, error: %v'', w')
      | (Inr u, w') \<Rightarrow> (CreateRespData 200 (Text []), w'))"

text \<open>
  \<^verbatim>\<open>editArticle\<close> (lines 427-480). At line 464 the variable \<^verbatim>\<open>article\<close> is assigned
  the first result of \<^verbatim>\<open>getArticle\<close>, which is nil when the second is a response; the
  read \<^verbatim>\<open>article.Guid\<close> of line 470 then dereferences a nil pointer and the handler
  panics instead of returning.
\<close>

datatype outcome = Return HttpResponseData | Panic

definition editArticle :: "world \<Rightarrow> request \<Rightarrow> outcome \<times> world" where
  "editArticle w r =
     (case getFullArticle TVersion (req_id r) w of
        (Inl d, w1) \<Rightarrow> (Return d, w1)
      | (Inr article, w1) \<Rightarrow>
          let user = req_user r;
              article = article\<lparr>FromVersion := Version article, Version := 0,
                                RevisedAt := None, RevisedBy := user, LockedBy := user\<rparr>
          in case es_index TDraft (Guid article) True article w1 of
               (Inl err, w2) \<Rightarrow>
                 (Return (CreateInternalServerErrorRespData
                            ''error querying elasticsearch, error: %v''), w2)
             | (Inr (rid, created), w2) \<Rightarrow>
                 if \<not> created
                 then
                   case getArticle TDraft (Guid article)
                          [''guid'', ''version'', ''from_version'', ''locked_by''] w2 of
                     (Inl d, w3) \<Rightarrow> if Status d = 404 then (Panic, w3) else (Return d, w3)
                   | (Inr article', w3) \<Rightarrow> (Return (marshalArticle article' 409), w3)
                 else (Return (marshalArticle article 200), w2))"

text \<open>\<^verbatim>\<open>publishArticle\<close> (lines 482-514).\<close>

definition publishArticle :: "world \<Rightarrow> request \<Rightarrow> HttpResponseData \<times> world" where
  "publishArticle w r =
     (case getFullArticle TVersion (req_id r) w of
        (Inl d, w1) \<Rightarrow> (d, w1)
      | (Inr article, w1) \<Rightarrow>
          let guid = Guid article;
              article = article\<lparr>ArtId := guid, LockedBy := []\<rparr>
          in case es_update_doc TPublish guid article w1 of
               (Inl err, w2) \<Rightarrow>
                 (CreateInternalServerErrorRespData
                    ''failed to publish article, error: %v'', w2)
             | (Inr result, w2) \<Rightarrow> (CreateRespData 200 (Text []), w2))"

text \<open>\<^verbatim>\<open>unpublishArticle\<close> (lines 516-538).\<close>

definition unpublishArticle :: "world \<Rightarrow> request \<Rightarrow> HttpResponseData \<times> world" where
  "unpublishArticle w r =
     (case es_delete TPublish (req_id r) w of
        (Inl err, w') \<Rightarrow>
          if err = NotFound then (CreateNotFoundRespData ''article %v not found!'', w')
          else (CreateInternalServerErrorRespData
                  ''failed to unpublish article, error: %v'', w')
      | (Inr u, w') \<Rightarrow> (CreateRespData 200 (Text []), w'))"

section \<open>Scenarios\<close>

text \<open>\<open>quiet n\<close> holds of a world's pending events when the next \<open>n\<close> calls reach the
  store undisturbed.\<close>

fun quiet :: "nat \<Rightarrow> event list \<Rightarrow> bool" where
  "quiet 0 es = True"
| "quiet (Suc n) [] = True"
| "quiet (Suc n) (e # es) = (e = Quiet \<and> quiet n es)"

text \<open>
  Concrete stores and requests, on which the theorems below are run. The article has the
  guid \<^verbatim>\<open>g\<close>; \<^verbatim>\<open>ann\<close> and \<^verbatim>\<open>bob\<close> are users; the two instants are
  1500000000.123456789 s and 1600000000 s after the epoch. A request that carries no body
  (the GET endpoints) has the body \<open>Malformed\<close>, which its handler never reads.
\<close>

definition world0 :: world where
  "world0 = \<lparr>rows = (\<lambda>ty i. None), pending = [], auto_ids = [], calls = []\<rparr>"

definition draft_g :: Article where
  "draft_g =
     Article0\<lparr>Guid := ''g'', Headline := ''h0'', Content := ''c0'', LockedBy := ''ann''\<rparr>"

definition draft_h :: Article where
  "draft_h = Article0\<lparr>Guid := ''h'', Headline := ''k0'', LockedBy := ''bob''\<rparr>"

definition version_1 :: Article where
  "version_1 =
     Article0\<lparr>ArtId := ''g:1500000000123456789'', Guid := ''g'',
               Version := 1500000000123456789, Headline := ''h1'', Summary := ''s1'',
               Note := ''n1'', CreatedAt := Some 1500000000123000000, CreatedBy := ''ann''\<rparr>"

definition version_2 :: Article where
  "version_2 =
     Article0\<lparr>ArtId := ''g:1600000000000000000'', Guid := ''g'',
               Version := 1600000000000000000, Headline := ''h2'',
               CreatedAt := Some 1500000000123000000, CreatedBy := ''ann'',
               RevisedAt := Some 1600000000000000000, RevisedBy := ''bob'',
               FromVersion := 1500000000123456789\<rparr>"

text \<open>One draft of \<^verbatim>\<open>g\<close>, locked by \<^verbatim>\<open>ann\<close>; the same with a version row already at
  the id the submit of the first instant will ask for; the same beside a draft \<^verbatim>\<open>h\<close>.\<close>

definition w_draft :: world where
  "w_draft = put_row TDraft ''g'' draft_g world0"

definition w_taken :: world where
  "w_taken = put_row TVersion ''g:1500000000123456789'' Article0 w_draft"

definition w_two_drafts :: world where
  "w_two_drafts = put_row TDraft ''h'' draft_h w_draft"

text \<open>The first version of \<^verbatim>\<open>g\<close> alone; both versions; the first version beside an open
  draft, undisturbed and with another instance discarding that draft just before the third
  call.\<close>

definition w_v1 :: world where
  "w_v1 = put_row TVersion ''g:1500000000123456789'' version_1 world0"

definition w_versions :: world where
  "w_versions = put_row TVersion ''g:1600000000000000000'' version_2 w_v1"

definition w_conflict :: world where
  "w_conflict = put_row TDraft ''g'' draft_g w_v1"

definition w_race :: world where
  "w_race = w_conflict\<lparr>pending := [Quiet, Quiet, OtherDiscard ''g'']\<rparr>"

definition r_save_bob :: request where
  "r_save_bob =
     \<lparr>req_id = ''g'', req_user = ''bob'',
      req_body = Encoded (Article0\<lparr>Headline := ''h1'', Content := ''c1''\<rparr>)\<rparr>"

definition r_save_ann :: request where
  "r_save_ann =
     \<lparr>req_id = ''g'', req_user = ''ann'',
      req_body = Encoded (Article0\<lparr>Headline := ''h0'', Content := ''c0''\<rparr>)\<rparr>"

definition r_submit_ann :: request where
  "r_submit_ann =
     \<lparr>req_id = ''g'', req_user = ''ann'',
      req_body = Encoded (Article0\<lparr>Guid := ''g'', Headline := ''h1'', Content := ''c1''\<rparr>)\<rparr>"

definition r_submit_cross :: request where
  "r_submit_cross =
     \<lparr>req_id = ''g'', req_user = ''ann'',
      req_body = Encoded (Article0\<lparr>Guid := ''h'', Headline := ''h1''\<rparr>)\<rparr>"

definition r_submit_bob :: request where
  "r_submit_bob =
     \<lparr>req_id = ''g'', req_user = ''bob'',
      req_body = Encoded (Article0\<lparr>Guid := ''g'', Headline := ''h2''\<rparr>)\<rparr>"

definition r_resubmit_bob :: request where
  "r_resubmit_bob =
     \<lparr>req_id = ''g'', req_user = ''bob'',
      req_body = Encoded (Article0\<lparr>Guid := ''g'', Headline := ''h2'',
        CreatedAt := Some 1500000000123000000, CreatedBy := ''ann'',
        FromVersion := 1500000000123456789\<rparr>)\<rparr>"

definition r_edit_bob :: request where
  "r_edit_bob =
     \<lparr>req_id = ''g:1500000000123456789'', req_user = ''bob'', req_body = Malformed\<rparr>"

definition r_publish_1 :: request where
  "r_publish_1 =
     \<lparr>req_id = ''g:1500000000123456789'', req_user = ''ann'', req_body = Malformed\<rparr>"

definition r_publish_2 :: request where
  "r_publish_2 =
     \<lparr>req_id = ''g:1600000000000000000'', req_user = ''ann'', req_body = Malformed\<rparr>"

text \<open>The store after \<^verbatim>\<open>bob\<close> has opened the first version for editing.\<close>

definition w_edited :: world where
  "w_edited = snd (editArticle w_v1 r_edit_bob)"

section \<open>Properties of the id codec\<close>

lemma digit_cases: "d < 10 \<Longrightarrow> d \<in> {0, 1, 2, 3, 4, 5, 6, 7, 8, 9::nat}"
  by auto

lemma is_digit_digit_char: "d < 10 \<Longrightarrow> is_digit (digit_char d)"
  by (drule digit_cases) (auto simp: is_digit_def digit_char_def)

lemma digit_val_digit_char: "d < 10 \<Longrightarrow> digit_val (digit_char d) = d"
  by (drule digit_cases) (auto simp: digit_val_def digit_char_def)

lemma digit_char_not_colon: "d < 10 \<Longrightarrow> digit_char d \<noteq> CHR '':''"
  by (drule digit_cases) (auto simp: digit_char_def)

lemma digit_char_not_sign:
  "d < 10 \<Longrightarrow> digit_char d \<noteq> CHR ''+'' \<and> digit_char d \<noteq> CHR ''-''"
  by (drule digit_cases) (auto simp: digit_char_def)

lemma LastIndex_absent: "c \<notin> set s \<Longrightarrow> LastIndex s c = - 1"
  by (induction s) (auto simp: Let_def)

lemma LastIndex_last: "c \<notin> set s \<Longrightarrow> LastIndex (g @ c # s) c = int (length g)"
  by (induction g) (auto simp: Let_def LastIndex_absent)

lemma ParseUint_loop_snoc:
  "ParseUint_loop n (s @ [c]) =
     (case ParseUint_loop n s of
        Inl e \<Rightarrow> Inl e
      | Inr m \<Rightarrow>
          if \<not> is_digit c then Inl ErrSyntax
          else if maxUint64 < m * 10 + digit_val c then Inl ErrRange
          else Inr (m * 10 + digit_val c))"
  by (induction s arbitrary: n) auto

lemma decimal_not_Nil: "decimal n \<noteq> []"
  by (subst decimal.simps) simp

lemma decimal_digits: "c \<in> set (decimal n) \<Longrightarrow> \<exists>d<10. c = digit_char d"
proof (induction n rule: decimal.induct)
  case (1 n)
  show ?case
  proof (cases "n < 10")
    case True
    with "1.prems" show ?thesis by (subst (asm) decimal.simps) auto
  next
    case False
    with "1.prems" have "c \<in> set (decimal (n div 10)) \<or> c = digit_char (n mod 10)"
      by (subst (asm) decimal.simps) auto
    then show ?thesis
    proof
      assume "c \<in> set (decimal (n div 10))"
      with "1.IH" False show ?thesis by simp
    next
      assume "c = digit_char (n mod 10)"
      moreover have "n mod 10 < 10" by simp
      ultimately show ?thesis by blast
    qed
  qed
qed

lemma colon_notin_decimal: "CHR '':'' \<notin> set (decimal n)"
proof
  assume "CHR '':'' \<in> set (decimal n)"
  then obtain d where "d < 10" "CHR '':'' = digit_char d"
    using decimal_digits by blast
  then show False
    using digit_char_not_colon [of d] by simp
qed

lemma hd_decimal_digit: "\<exists>d<10. hd (decimal n) = digit_char d"
  using decimal_digits [of "hd (decimal n)" n] decimal_not_Nil [of n] by simp

text \<open>Reading back the digits of \<open>n\<close>: every prefix is a smaller number, so the range
  check passes at each digit when it passes for \<open>n\<close>.\<close>

lemma ParseUint_loop_decimal: "n \<le> maxUint64 \<Longrightarrow> ParseUint_loop 0 (decimal n) = Inr n"
proof (induction n rule: decimal.induct)
  case (1 n)
  show ?case
  proof (cases "n < 10")
    case True
    then show ?thesis
      using "1.prems"
      by (subst decimal.simps) (simp add: is_digit_digit_char digit_val_digit_char)
  next
    case False
    have d: "n mod 10 < 10" by simp
    have le: "n div 10 \<le> maxUint64" using "1.prems" by simp
    have ih: "ParseUint_loop 0 (decimal (n div 10)) = Inr (n div 10)"
      using "1.IH" [OF False le] .
    have eq: "n div 10 * 10 + n mod 10 = n" by simp
    from False have "decimal n = decimal (n div 10) @ [digit_char (n mod 10)]"
      by (subst decimal.simps) simp
    then show ?thesis
      using "1.prems" d
      by (simp add: ParseUint_loop_snoc ih is_digit_digit_char digit_val_digit_char eq
          del: div_mult_mod_eq)
  qed
qed

lemma ParseInt_decimal:
  assumes "n < 2 ^ 63"
  shows "ParseInt (decimal n) = Inr (word_of_nat n)"
proof -
  obtain d where d: "d < 10" "hd (decimal n) = digit_char d"
    using hd_decimal_digit by blast
  have sign: "hd (decimal n) \<noteq> CHR ''+''" "hd (decimal n) \<noteq> CHR ''-''"
    using digit_char_not_sign [OF d(1)] d(2) by simp_all
  have "n \<le> maxUint64" using assms by (simp add: maxUint64_def)
  then have "ParseUint (decimal n) = Inr n"
    by (simp add: ParseUint_def decimal_not_Nil ParseUint_loop_decimal)
  then show ?thesis
    using assms sign by (simp add: ParseInt_def decimal_not_Nil)
qed

lemma FormatInt_pos: "0 < sint v \<Longrightarrow> FormatInt v = decimal (nat (sint v))"
  by (simp add: FormatInt_def)

lemma sint_bound64: "nat (sint (v :: int64)) < 2 ^ 63"
  using sint_lt [of v] by (cases "0 \<le> sint v") simp_all

lemma word_of_nat_sint: "0 < sint (v :: int64) \<Longrightarrow> word_of_nat (nat (sint v)) = v"
  by (simp add: word_of_nat_eq_iff)

lemmas parse_eval = parseArticleId_def ParseInt_def ParseUint_def is_digit_def digit_val_def
  maxUint64_def

text \<open>
  Claim C9, as the code has it. \<^verbatim>\<open>parseArticleId\<close> splits at the last \<open>:\<close>. An id
  with no \<open>:\<close>, or whose only \<open>:\<close> is its first byte, comes back whole with version 0 and
  no error. When a guid stands before the last \<open>:\<close> and the suffix after it does not
  parse as an integer, the version is 0, the guid is the part before that \<open>:\<close> (not the
  whole id) and the parse error is returned; when the suffix parses, the result is that
  guid and the parsed version.
\<close>

theorem parseArticleId_cases:
  "(CHR '':'' \<notin> set s \<longrightarrow> parseArticleId s = (s, 0, None)) \<and>
   (CHR '':'' \<notin> set t \<longrightarrow> parseArticleId ('':'' @ t) = ('':'' @ t, 0, None)) \<and>
   (g \<noteq> [] \<and> CHR '':'' \<notin> set t \<and> ParseInt t = Inl e \<longrightarrow>
      parseArticleId (g @ '':'' @ t) = (g, 0, Some e)) \<and>
   (g \<noteq> [] \<and> CHR '':'' \<notin> set t \<and> ParseInt t = Inr v \<longrightarrow>
      parseArticleId (g @ '':'' @ t) = (g, v, None))"
proof (intro conjI impI)
  assume "CHR '':'' \<notin> set s"
  then show "parseArticleId s = (s, 0, None)"
    by (simp add: parseArticleId_def LastIndex_absent)
next
  assume "CHR '':'' \<notin> set t"
  then have "LastIndex ([] @ CHR '':'' # t) (CHR '':'') = int (length ([] :: string))"
    by (rule LastIndex_last)
  then show "parseArticleId ('':'' @ t) = ('':'' @ t, 0, None)"
    by (simp add: parseArticleId_def Let_def)
next
  assume a: "g \<noteq> [] \<and> CHR '':'' \<notin> set t \<and> ParseInt t = Inl e"
  then have "LastIndex (g @ CHR '':'' # t) (CHR '':'') = int (length g)"
    by (simp add: LastIndex_last)
  with a show "parseArticleId (g @ '':'' @ t) = (g, 0, Some e)"
    by (simp add: parseArticleId_def del: LastIndex.simps)
next
  assume a: "g \<noteq> [] \<and> CHR '':'' \<notin> set t \<and> ParseInt t = Inr v"
  then have "LastIndex (g @ CHR '':'' # t) (CHR '':'') = int (length g)"
    by (simp add: LastIndex_last)
  with a show "parseArticleId (g @ '':'' @ t) = (g, v, None)"
    by (simp add: parseArticleId_def del: LastIndex.simps)
qed

theorem parseArticleId_cases_witness:
  "parseArticleId ''abc'' = (''abc'', 0, None) \<and>
   parseArticleId '':12'' = ('':12'', 0, None) \<and>
   ParseInt ''xyz'' = Inl ErrSyntax \<and>
   parseArticleId (''abc'' @ '':'' @ ''xyz'') = (''abc'', 0, Some ErrSyntax) \<and>
   ParseInt ''12'' = Inr 12 \<and>
   parseArticleId (''abc'' @ '':'' @ ''12'') = (''abc'', 12, None)"
proof -
  have e: "ParseInt ''xyz'' = Inl ErrSyntax"
    by (simp add: parse_eval)
  have v: "ParseInt ''12'' = Inr 12"
    by (simp add: parse_eval)
  show ?thesis
    using parseArticleId_cases [of "''abc''" "''12''" "''abc''" ErrSyntax 12]
      parseArticleId_cases [of "''abc''" "''xyz''" "''abc''" ErrSyntax 12] e v
    by simp
qed

text \<open>The claim as the spec words it fails at the id \<^verbatim>\<open>abc:xyz\<close>: the suffix does not
  parse, and the guid that comes back is \<^verbatim>\<open>abc\<close>, not the whole id.\<close>

theorem parseArticleId_bad_suffix_counterexample:
  "ParseInt ''xyz'' = Inl ErrSyntax \<and>
   parseArticleId ''abc:xyz'' = (''abc'', 0, Some ErrSyntax) \<and>
   fst (parseArticleId ''abc:xyz'') \<noteq> ''abc:xyz''"
  by (simp add: parse_eval)

text \<open>
  Claim C10. \<^verbatim>\<open>submitArticle\<close> builds a version id as \<^verbatim>\<open>guid:version\<close> with
  \<^verbatim>\<open>fmt.Sprintf("%v:%v", guid, ver)\<close>. For a guid that is not empty (it may hold \<open>:\<close>
  itself) and a version above 0, \<^verbatim>\<open>parseArticleId\<close> gives back exactly that guid and
  that version, with no error.
\<close>

theorem parseArticleId_version_id:
  assumes "g \<noteq> []" and "0 < sint v"
  shows "parseArticleId (g @ '':'' @ FormatInt v) = (g, v, None)"
proof -
  let ?ds = "decimal (nat (sint v))"
  have idx: "LastIndex (g @ CHR '':'' # ?ds) (CHR '':'') = int (length g)"
    by (rule LastIndex_last) (rule colon_notin_decimal)
  have pos: "0 < int (length g)" using assms(1) by simp
  have "ParseInt ?ds = Inr v"
    using ParseInt_decimal [OF sint_bound64 [of v]] word_of_nat_sint [OF assms(2)] by simp
  then show ?thesis
    using idx pos assms(1) by (simp add: parseArticleId_def FormatInt_pos [OF assms(2)])
qed

theorem parseArticleId_version_id_witness:
  "''a:b'' \<noteq> [] \<and> 0 < sint (1234567890123 :: int64) \<and>
   FormatInt 1234567890123 = ''1234567890123'' \<and>
   parseArticleId (''a:b'' @ '':'' @ FormatInt 1234567890123) = (''a:b'', 1234567890123, None)"
proof -
  have p: "0 < sint (1234567890123 :: int64)" by simp
  have f: "FormatInt 1234567890123 = ''1234567890123''"
    by (simp add: FormatInt_def decimal.simps digit_char_def)
  show ?thesis
    using parseArticleId_version_id [of "''a:b''" 1234567890123] p f by simp
qed

section \<open>Properties of the handlers\<close>

lemmas resp_defs = CreateRespData_def CreateNotFoundRespData_def CreateForbiddenRespData_def
  CreateInternalServerErrorRespData_def marshalArticle_def

lemmas store_defs = es_get_def es_index_def es_update_script_def es_update_doc_def
  es_delete_def arrive_def next_event_def interfere_def put_row_def del_row_def
  ESScriptSaveArticle_def

lemmas fixture_defs = world0_def draft_g_def draft_h_def version_1_def version_2_def
  w_draft_def w_taken_def w_two_drafts_def w_v1_def w_versions_def w_conflict_def w_race_def
  r_save_bob_def r_save_ann_def r_submit_ann_def r_submit_cross_def r_submit_bob_def
  r_resubmit_bob_def r_edit_bob_def r_publish_1_def r_publish_2_def Article0_def

lemma FormatInt_t1: "FormatInt 1500000000123456789 = ''1500000000123456789''"
  by (simp add: FormatInt_def decimal.simps digit_char_def)

lemma FormatInt_t2: "FormatInt 1600000000000000000 = ''1600000000000000000''"
  by (simp add: FormatInt_def decimal.simps digit_char_def)

lemmas eval_defs = submitArticle_def editArticle_def publishArticle_def saveArticle_def
  getArticle_def getFullArticle_def fetch_source_def merge_source_def Let_def store_defs
  resp_defs NilZeroTimeFields_def wire_def JSONTime_wire_def UnixNano_def IsZero_def
  FormatInt_t1 FormatInt_t2

subsection \<open>Single store calls\<close>

lemma arrive_quiet:
  "next_event w = Quiet \<Longrightarrow>
   arrive c w = (True, w\<lparr>pending := tl (pending w), calls := calls w @ [c]\<rparr>)"
  by (simp add: arrive_def interfere_def)

lemma quiet_next: "quiet (Suc n) (pending w) \<Longrightarrow> next_event w = Quiet"
  by (cases "pending w") (simp_all add: next_event_def)

lemma quiet_tl: "quiet (Suc n) es \<Longrightarrow> quiet n (tl es)"
  by (cases es; cases n) simp_all

lemma unmarshal_Some_readable: "unmarshalArticle b = Some a \<Longrightarrow> b \<noteq> Unreadable"
  by (cases b) simp_all

lemma es_update_script_found:
  assumes "next_event w = Quiet" and "i \<noteq> []" and "rows w ty i = Some src"
  shows "es_update_script ty i params dn w =
     (case ESScriptSaveArticle params src of
        None \<Rightarrow>
          (Inr ''noop'', w\<lparr>pending := tl (pending w), calls := calls w @ [UpdateCall ty i]\<rparr>)
      | Some src' \<Rightarrow>
          (Inr ''updated'',
           put_row ty i src'
             (w\<lparr>pending := tl (pending w), calls := calls w @ [UpdateCall ty i]\<rparr>)))"
  using assms by (simp add: es_update_script_def arrive_quiet)

lemma es_index_taken:
  assumes "next_event w = Quiet" and "i \<noteq> []" and "rows w ty i = Some old"
  shows "es_index ty i True b w =
     (Inr (i, False), w\<lparr>pending := tl (pending w), calls := calls w @ [IndexCall ty i]\<rparr>)"
  using assms by (simp add: es_index_def arrive_quiet)

lemma es_index_created:
  assumes "es_index ty i True b w = (Inr (k, True), w')" and "i \<noteq> []"
  shows "rows w' ty i = Some (wire b)"
  using assms
  by (auto simp: es_index_def arrive_def Let_def put_row_def
      split: if_splits option.splits bool.splits)

lemma interfere_rows_other: "ty \<noteq> TDraft \<Longrightarrow> rows (interfere e w) ty = rows w ty"
  by (cases e) (simp_all add: interfere_def del_row_def)

lemma es_delete_rows_other:
  assumes "es_delete TDraft i w = (x, w')"
  shows "rows w' TVersion = rows w TVersion"
  using assms
  by (auto simp: es_delete_def arrive_def Let_def del_row_def interfere_rows_other
      split: if_splits option.splits bool.splits)

subsection \<open>save\<close>

text \<open>
  Claim C1. A draft is stored under the request's id, the request's user is not the one
  in the draft's \<open>LockedBy\<close>, the body decodes and the store answers the update: then
  \<^verbatim>\<open>saveArticle\<close> returns 403 (Forbidden) and no row of the store has changed, so
  headline, summary, content, tag and note of the draft are as they were.
\<close>

theorem save_by_other_user_forbidden:
  assumes draft: "rows w TDraft (req_id r) = Some d"
    and other: "req_user r \<noteq> LockedBy d"
    and body: "unmarshalArticle (req_body r) = Some a"
    and ident: "req_id r \<noteq> []"
    and still: "next_event w = Quiet"
  shows "Status (fst (saveArticle w r now)) = 403 \<and>
         rows (snd (saveArticle w r now)) = rows w"
proof -
  define params where "params = \<lparr>p_checkuser = True, p_headline = Headline a,
      p_summary = Summary a, p_content = Content a, p_tag = Tag a, p_note = Note a,
      p_username = req_user r, p_revised_at = now\<rparr>"
  define w1 where "w1 = w\<lparr>pending := tl (pending w),
      calls := calls w @ [UpdateCall TDraft (req_id r)]\<rparr>"
  have rd: "req_body r \<noteq> Unreadable"
    using body by (rule unmarshal_Some_readable)
  have "ESScriptSaveArticle params d = None"
    using other by (auto simp: ESScriptSaveArticle_def params_def)
  then have upd: "es_update_script TDraft (req_id r) params True w = (Inr ''noop'', w1)"
    using es_update_script_found [OF still ident draft, of params True] by (simp add: w1_def)
  have "saveArticle w r now =
      (CreateForbiddenRespData ''Update article locked by another user is not allowed!'', w1)"
    using rd body upd [unfolded params_def] by (simp add: saveArticle_def Let_def)
  then show ?thesis
    by (simp add: resp_defs w1_def)
qed

theorem save_by_other_user_forbidden_witness:
  "rows w_draft TDraft (req_id r_save_bob) = Some draft_g \<and>
   req_user r_save_bob \<noteq> LockedBy draft_g \<and>
   Status (fst (saveArticle w_draft r_save_bob 1500000000123456789)) = 403 \<and>
   rows (snd (saveArticle w_draft r_save_bob 1500000000123456789)) = rows w_draft"
proof -
  have 1: "rows w_draft TDraft (req_id r_save_bob) = Some draft_g"
    by (simp add: w_draft_def r_save_bob_def put_row_def world0_def)
  have 2: "req_user r_save_bob \<noteq> LockedBy draft_g"
    by (simp add: r_save_bob_def draft_g_def Article0_def)
  have 3: "unmarshalArticle (req_body r_save_bob) =
             Some (NilZeroTimeFields (Article0\<lparr>Headline := ''h1'', Content := ''c1''\<rparr>))"
    by (simp add: r_save_bob_def)
  have 4: "req_id r_save_bob \<noteq> []"
    by (simp add: r_save_bob_def)
  have 5: "next_event w_draft = Quiet"
    by (simp add: next_event_def w_draft_def put_row_def world0_def)
  show ?thesis
    using save_by_other_user_forbidden [OF 1 2 3 4 5, of 1500000000123456789] 1 2 by simp
qed

text \<open>
  Claim C6. A draft is stored under the request's id, its \<open>LockedBy\<close> names the
  request's user, the body decodes and the store answers the update: then
  \<^verbatim>\<open>saveArticle\<close> returns 200 and the draft holds the five fields of the body, whatever
  they are. In particular a body that repeats the stored fields is answered with 200 and
  not with 403: a scripted update that runs its assignments is reported as
  \<^verbatim>\<open>updated\<close>, and only the script's own \<^verbatim>\<open>ctx.op = "none"\<close> as \<^verbatim>\<open>noop\<close>.
\<close>

theorem save_by_lock_owner_ok:
  assumes draft: "rows w TDraft (req_id r) = Some d"
    and owner: "LockedBy d = req_user r"
    and named: "req_user r \<noteq> []"
    and body: "unmarshalArticle (req_body r) = Some a"
    and ident: "req_id r \<noteq> []"
    and still: "next_event w = Quiet"
  shows "Status (fst (saveArticle w r now)) = 200 \<and>
         rows (snd (saveArticle w r now)) TDraft (req_id r) =
           Some (d\<lparr>Headline := Headline a, Summary := Summary a, Content := Content a,
                    Tag := Tag a, Note := Note a\<rparr>)"
proof -
  define params where "params = \<lparr>p_checkuser = True, p_headline = Headline a,
      p_summary = Summary a, p_content = Content a, p_tag = Tag a, p_note = Note a,
      p_username = req_user r, p_revised_at = now\<rparr>"
  define d' where "d' = d\<lparr>Headline := Headline a, Summary := Summary a,
      Content := Content a, Tag := Tag a, Note := Note a\<rparr>"
  define w1 where "w1 = put_row TDraft (req_id r) d'
      (w\<lparr>pending := tl (pending w), calls := calls w @ [UpdateCall TDraft (req_id r)]\<rparr>)"
  have rd: "req_body r \<noteq> Unreadable"
    using body by (rule unmarshal_Some_readable)
  have "ESScriptSaveArticle params d = Some d'"
    using owner named by (simp add: ESScriptSaveArticle_def params_def d'_def)
  then have upd: "es_update_script TDraft (req_id r) params True w = (Inr ''updated'', w1)"
    using es_update_script_found [OF still ident draft, of params True] by (simp add: w1_def)
  have "saveArticle w r now = (CreateRespData 200 (Text []), w1)"
    using rd body upd [unfolded params_def] by (simp add: saveArticle_def Let_def)
  then show ?thesis
    by (simp add: resp_defs w1_def put_row_def d'_def)
qed

text \<open>The witness is the save that changes nothing: \<^verbatim>\<open>ann\<close> sends the headline and
  the content her draft already has.\<close>

theorem save_by_lock_owner_ok_witness:
  "rows w_draft TDraft (req_id r_save_ann) = Some draft_g \<and>
   LockedBy draft_g = req_user r_save_ann \<and>
   Status (fst (saveArticle w_draft r_save_ann 1500000000123456789)) = 200 \<and>
   rows (snd (saveArticle w_draft r_save_ann 1500000000123456789)) TDraft ''g'' = Some draft_g"
proof -
  have 1: "rows w_draft TDraft (req_id r_save_ann) = Some draft_g"
    by (simp add: w_draft_def r_save_ann_def put_row_def world0_def)
  have 2: "LockedBy draft_g = req_user r_save_ann"
    by (simp add: r_save_ann_def draft_g_def Article0_def)
  have 3: "req_user r_save_ann \<noteq> []"
    by (simp add: r_save_ann_def)
  have 4: "unmarshalArticle (req_body r_save_ann) =
             Some (Article0\<lparr>Headline := ''h0'', Content := ''c0''\<rparr>)"
    by (simp add: r_save_ann_def NilZeroTimeFields_def Article0_def)
  have 5: "req_id r_save_ann \<noteq> []"
    by (simp add: r_save_ann_def)
  have 6: "next_event w_draft = Quiet"
    by (simp add: next_event_def w_draft_def put_row_def world0_def)
  have 7: "draft_g\<lparr>Headline := ''h0'', Summary := [], Content := ''c0'', Tag := [],
                   Note := []\<rparr> = draft_g"
    by (simp add: draft_g_def Article0_def)
  have 8: "req_id r_save_ann = ''g''"
    by (simp add: r_save_ann_def)
  show ?thesis
    using save_by_lock_owner_ok [OF 1 2 3 4 5 6, of 1500000000123456789] 1 2 7 8
    by (simp add: Article0_def)
qed

subsection \<open>submit\<close>

text \<open>
  Claim C2. Whenever \<^verbatim>\<open>submitArticle\<close> on the id \<open>g\<close> at the instant \<open>ts\<close> returns 200,
  its body is the JSON of an article whose id is \<open>g:ts.UnixNano()\<close>, whose version is
  \<open>ts.UnixNano()\<close>, whose \<open>LockedBy\<close> is empty and whose headline, summary, content, tag
  and note are empty, so that \<^verbatim>\<open>omitempty\<close> leaves them out. It holds in every world,
  whatever the store answers.
\<close>

theorem submit_success_payload:
  assumes "submitArticle w r ts = (resp, w')" and "Status resp = 200"
  shows "\<exists>p. Body resp = Json p \<and>
           ArtId p = req_id r @ '':'' @ FormatInt (UnixNano ts) \<and>
           Version p = UnixNano ts \<and> LockedBy p = [] \<and>
           Headline p = [] \<and> Summary p = [] \<and> Content p = [] \<and> Tag p = [] \<and> Note p = []"
  using assms
  by (auto simp: submitArticle_def Let_def resp_defs wire_def
      split: if_splits option.splits prod.splits sum.splits)

theorem submit_success_payload_witness:
  "Status (fst (submitArticle w_draft r_submit_ann 1500000000123456789)) = 200 \<and>
   (\<exists>p. Body (fst (submitArticle w_draft r_submit_ann 1500000000123456789)) = Json p \<and>
        ArtId p = req_id r_submit_ann @ '':'' @ FormatInt (UnixNano 1500000000123456789) \<and>
        Version p = UnixNano 1500000000123456789 \<and> LockedBy p = [] \<and>
        Headline p = [] \<and> Summary p = [] \<and> Content p = [] \<and> Tag p = [] \<and> Note p = [])"
proof -
  have ok: "Status (fst (submitArticle w_draft r_submit_ann 1500000000123456789)) = 200"
    by (simp add: eval_defs fixture_defs)
  have pair: "submitArticle w_draft r_submit_ann 1500000000123456789 =
      (fst (submitArticle w_draft r_submit_ann 1500000000123456789),
       snd (submitArticle w_draft r_submit_ann 1500000000123456789))"
    by simp
  show ?thesis
    using submit_success_payload [OF pair ok] ok by blast
qed

text \<open>
  Claim C5. The body decodes, the draft is stored under the request's id, the store
  answers the update and the create, and the version id \<open>g:ts.UnixNano()\<close> is taken, so
  that the create-only write reports "not created": then \<^verbatim>\<open>submitArticle\<close> returns
  500, the calls it has sent are the update of the draft and one create of the version
  (no second create, no delete), the version rows are as before and the draft is still
  stored, with the fields the update gave it.
\<close>

theorem submit_version_collision:
  assumes body: "unmarshalArticle (req_body r) = Some a"
    and ident: "req_id r \<noteq> []"
    and draft: "rows w TDraft (req_id r) = Some d"
    and taken: "rows w TVersion (req_id r @ '':'' @ FormatInt (UnixNano ts)) = Some v"
    and still: "quiet 2 (pending w)"
  shows "Status (fst (submitArticle w r ts)) = 500 \<and>
         calls (snd (submitArticle w r ts)) =
           calls w @ [UpdateCall TDraft (req_id r),
                      IndexCall TVersion (req_id r @ '':'' @ FormatInt (UnixNano ts))] \<and>
         rows (snd (submitArticle w r ts)) TDraft (req_id r) =
           Some (d\<lparr>Headline := Headline a, Summary := Summary a, Content := Content a,
                    Tag := Tag a, Note := Note a\<rparr>) \<and>
         rows (snd (submitArticle w r ts)) TVersion = rows w TVersion"
proof -
  define vid where "vid = req_id r @ '':'' @ FormatInt (UnixNano ts)"
  define params where "params = \<lparr>p_checkuser = False, p_headline = Headline a,
      p_summary = Summary a, p_content = Content a, p_tag = Tag a, p_note = Note a,
      p_username = req_user r, p_revised_at = ts\<rparr>"
  define d' where "d' = d\<lparr>Headline := Headline a, Summary := Summary a,
      Content := Content a, Tag := Tag a, Note := Note a\<rparr>"
  define w1 where "w1 = put_row TDraft (req_id r) d'
      (w\<lparr>pending := tl (pending w), calls := calls w @ [UpdateCall TDraft (req_id r)]\<rparr>)"
  define w2 where "w2 = w1\<lparr>pending := tl (pending w1),
      calls := calls w1 @ [IndexCall TVersion vid]\<rparr>"
  have rd: "req_body r \<noteq> Unreadable"
    using body by (rule unmarshal_Some_readable)
  have q1: "next_event w = Quiet"
    using still by (simp add: quiet_next numeral_2_eq_2)
  have "quiet 1 (tl (pending w))"
    using still quiet_tl [of 1 "pending w"] by (simp add: numeral_2_eq_2)
  then have q2: "next_event w1 = Quiet"
    using quiet_next [of 0 w1] by (simp add: w1_def put_row_def)
  have "ESScriptSaveArticle params d = Some d'"
    by (simp add: ESScriptSaveArticle_def params_def d'_def)
  then have upd: "es_update_script TDraft (req_id r) params False w = (Inr ''updated'', w1)"
    using es_update_script_found [OF q1 ident draft, of params False] by (simp add: w1_def)
  have nonempty: "vid \<noteq> []"
    by (simp add: vid_def)
  have there: "rows w1 TVersion vid = Some v"
    using taken by (simp add: w1_def vid_def put_row_def)
  have idx: "es_index TVersion vid True b w1 = (Inr (vid, False), w2)" for b
    using es_index_taken [OF q2 nonempty there] by (simp add: w2_def)
  have res: "submitArticle w r ts =
      (CreateInternalServerErrorRespData
         ''no reason but article new version is not created!'', w2)"
    using rd body upd [unfolded params_def] idx [unfolded vid_def]
    by (simp add: submitArticle_def Let_def)
  have "rows w2 TDraft (req_id r) = Some d'" "rows w2 TVersion = rows w TVersion"
    "calls w2 = calls w @ [UpdateCall TDraft (req_id r), IndexCall TVersion vid]"
    by (simp_all add: w2_def w1_def put_row_def)
  then show ?thesis
    by (simp add: res resp_defs vid_def d'_def)
qed

theorem submit_version_collision_witness:
  "rows w_taken TDraft (req_id r_submit_ann) = Some draft_g \<and>
   rows w_taken TVersion
     (req_id r_submit_ann @ '':'' @ FormatInt (UnixNano 1500000000123456789)) = Some Article0 \<and>
   Status (fst (submitArticle w_taken r_submit_ann 1500000000123456789)) = 500 \<and>
   calls (snd (submitArticle w_taken r_submit_ann 1500000000123456789)) =
     [UpdateCall TDraft ''g'', IndexCall TVersion ''g:1500000000123456789''] \<and>
   rows (snd (submitArticle w_taken r_submit_ann 1500000000123456789)) TDraft ''g'' =
     Some (draft_g\<lparr>Headline := ''h1'', Content := ''c1''\<rparr>)"
proof -
  have f: "FormatInt (UnixNano 1500000000123456789) = ''1500000000123456789''"
    by (simp add: UnixNano_def FormatInt_t1)
  have i: "req_id r_submit_ann = ''g''"
    by (simp add: r_submit_ann_def)
  have 1: "unmarshalArticle (req_body r_submit_ann) =
             Some (Article0\<lparr>Guid := ''g'', Headline := ''h1'', Content := ''c1''\<rparr>)"
    by (simp add: r_submit_ann_def NilZeroTimeFields_def Article0_def)
  have 2: "req_id r_submit_ann \<noteq> []"
    by (simp add: i)
  have 3: "rows w_taken TDraft (req_id r_submit_ann) = Some draft_g"
    by (simp add: i w_taken_def w_draft_def put_row_def world0_def)
  have 4: "rows w_taken TVersion
             (req_id r_submit_ann @ '':'' @ FormatInt (UnixNano 1500000000123456789))
             = Some Article0"
    by (simp add: i f w_taken_def w_draft_def put_row_def world0_def)
  have 5: "quiet 2 (pending w_taken)"
    by (simp add: w_taken_def w_draft_def put_row_def world0_def numeral_2_eq_2)
  have 6: "calls w_taken = []"
    by (simp add: w_taken_def w_draft_def put_row_def world0_def)
  have 7: "draft_g\<lparr>Headline := ''h1'', Summary := [], Content := ''c1'', Tag := [],
                   Note := []\<rparr> = draft_g\<lparr>Headline := ''h1'', Content := ''c1''\<rparr>"
    by (simp add: draft_g_def Article0_def)
  show ?thesis
    using submit_version_collision [OF 1 2 3 4 5] 3 4 6 7
    by (simp add: i f Article0_def)
qed

text \<open>
  Claim C7, at an input where the code departs from it. The delete of line 388 is keyed
  by \<^verbatim>\<open>article.Guid\<close>, the guid the request body carries, while the update of line 341
  and the lock of line 346 use the request's id. \<^verbatim>\<open>ann\<close> submits the draft \<^verbatim>\<open>g\<close>
  with a body whose guid is \<^verbatim>\<open>h\<close>, a draft of \<^verbatim>\<open>bob\<close>: the submit returns 200, the
  draft \<^verbatim>\<open>g\<close> is still stored and the draft \<^verbatim>\<open>h\<close> is gone.
\<close>

theorem submit_deletes_draft_of_body_guid:
  "Status (fst (submitArticle w_two_drafts r_submit_cross 1500000000123456789)) = 200 \<and>
   rows (snd (submitArticle w_two_drafts r_submit_cross 1500000000123456789)) TDraft
     (req_id r_submit_cross) = Some (draft_g\<lparr>Headline := ''h1'', Content := []\<rparr>) \<and>
   rows (snd (submitArticle w_two_drafts r_submit_cross 1500000000123456789)) TDraft ''h''
     = None \<and>
   calls (snd (submitArticle w_two_drafts r_submit_cross 1500000000123456789)) =
     [UpdateCall TDraft ''g'', IndexCall TVersion ''g:1500000000123456789'',
      DeleteCall TDraft ''h'']"
  by (simp add: eval_defs fixture_defs)

text \<open>
  Claim C8, as the code has it. \<^verbatim>\<open>submitArticle\<close> builds the new version from the
  request body and decides by the body's \<open>FromVersion\<close>. When it is 0 the version gets
  \<open>CreatedAt\<close> and \<open>CreatedBy\<close> from the submit (the instant at the JSON resolution, the
  user) and its \<open>RevisedAt\<close> and \<open>RevisedBy\<close> are cleared, whether or not the article has
  versions already. When it is not 0 the version gets \<open>RevisedAt\<close> and \<open>RevisedBy\<close> from
  the submit and keeps the \<open>CreatedAt\<close> and \<open>CreatedBy\<close> the body carries. The theorem
  speaks of the version row a submit that returns 200 leaves in the store.
\<close>

theorem submit_provenance:
  assumes run: "submitArticle w r ts = (resp, w')" and ok: "Status resp = 200"
    and body: "unmarshalArticle (req_body r) = Some a"
  shows "\<exists>v. rows w' TVersion (req_id r @ '':'' @ FormatInt (UnixNano ts)) = Some v \<and>
           (if FromVersion a = 0
            then CreatedAt v = Some (JSONTime_wire ts) \<and> CreatedBy v = req_user r \<and>
                 RevisedAt v = None \<and> RevisedBy v = []
            else RevisedAt v = Some (JSONTime_wire ts) \<and> RevisedBy v = req_user r \<and>
                 CreatedAt v = map_option JSONTime_wire (CreatedAt a) \<and>
                 CreatedBy v = CreatedBy a)"
proof -
  define vid where "vid = req_id r @ '':'' @ FormatInt (UnixNano ts)"
  define art where "art =
     (if FromVersion a = 0
      then a\<lparr>ArtId := vid, Version := UnixNano ts, CreatedAt := Some ts,
              CreatedBy := req_user r, RevisedAt := None, RevisedBy := [], LockedBy := []\<rparr>
      else a\<lparr>ArtId := vid, Version := UnixNano ts, RevisedAt := Some ts,
              RevisedBy := req_user r, LockedBy := []\<rparr>)"
  have nonempty: "vid \<noteq> []"
    by (simp add: vid_def)
  from run ok body obtain w1 w2 k x where
    idx: "es_index TVersion vid True art w1 = (Inr (k, True), w2)" and
    del: "es_delete TDraft (Guid art) w2 = (x, w')"
    by (auto simp: submitArticle_def Let_def resp_defs vid_def art_def
        split: if_splits option.splits prod.splits sum.splits)
  have "rows w2 TVersion vid = Some (wire art)"
    using es_index_created [OF idx nonempty] .
  then have "rows w' TVersion vid = Some (wire art)"
    using es_delete_rows_other [OF del] by simp
  then show ?thesis
    by (simp add: vid_def art_def wire_def)
qed

text \<open>The witness runs both branches: the first submit of \<^verbatim>\<open>ann\<close>'s new draft, and
  \<^verbatim>\<open>bob\<close>'s submit of his edit of the first version with a body that carries the
  draft's \<open>FromVersion\<close>, \<open>CreatedAt\<close> and \<open>CreatedBy\<close>.\<close>

theorem submit_provenance_witness:
  "Status (fst (submitArticle w_draft r_submit_ann 1500000000123456789)) = 200 \<and>
   (\<exists>v. rows (snd (submitArticle w_draft r_submit_ann 1500000000123456789)) TVersion
           (req_id r_submit_ann @ '':'' @ FormatInt (UnixNano 1500000000123456789)) = Some v \<and>
        CreatedAt v = Some (JSONTime_wire 1500000000123456789) \<and>
        CreatedBy v = req_user r_submit_ann \<and> RevisedAt v = None \<and> RevisedBy v = []) \<and>
   Status (fst (submitArticle w_edited r_resubmit_bob 1600000000000000000)) = 200 \<and>
   (\<exists>v. rows (snd (submitArticle w_edited r_resubmit_bob 1600000000000000000)) TVersion
           (req_id r_resubmit_bob @ '':'' @ FormatInt (UnixNano 1600000000000000000)) = Some v \<and>
        RevisedAt v = Some (JSONTime_wire 1600000000000000000) \<and>
        RevisedBy v = req_user r_resubmit_bob \<and>
        CreatedAt v = Some 1500000000123000000 \<and> CreatedBy v = ''ann'')"
proof -
  define a1 where "a1 = Article0\<lparr>Guid := ''g'', Headline := ''h1'', Content := ''c1''\<rparr>"
  define a2 where "a2 = Article0\<lparr>Guid := ''g'', Headline := ''h2'',
       CreatedAt := Some 1500000000123000000, CreatedBy := ''ann'',
       FromVersion := 1500000000123456789\<rparr>"
  have ok1: "Status (fst (submitArticle w_draft r_submit_ann 1500000000123456789)) = 200"
    by (simp add: eval_defs fixture_defs)
  have ok2: "Status (fst (submitArticle w_edited r_resubmit_bob 1600000000000000000)) = 200"
    by (simp add: w_edited_def eval_defs fixture_defs)
  have body1: "unmarshalArticle (req_body r_submit_ann) = Some a1"
    by (simp add: a1_def r_submit_ann_def NilZeroTimeFields_def Article0_def)
  have body2: "unmarshalArticle (req_body r_resubmit_bob) = Some a2"
    by (simp add: a2_def r_resubmit_bob_def NilZeroTimeFields_def Article0_def IsZero_def)
  have new: "FromVersion a1 = 0"
    by (simp add: a1_def Article0_def)
  have old: "FromVersion a2 \<noteq> 0" "CreatedAt a2 = Some 1500000000123000000"
    "CreatedBy a2 = ''ann''"
    by (simp_all add: a2_def Article0_def)
  have wire_t: "JSONTime_wire 1500000000123000000 = 1500000000123000000"
    by (simp add: JSONTime_wire_def)
  have 1: "\<exists>v. rows (snd (submitArticle w_draft r_submit_ann 1500000000123456789)) TVersion
           (req_id r_submit_ann @ '':'' @ FormatInt (UnixNano 1500000000123456789)) = Some v \<and>
        CreatedAt v = Some (JSONTime_wire 1500000000123456789) \<and>
        CreatedBy v = req_user r_submit_ann \<and> RevisedAt v = None \<and> RevisedBy v = []"
    using submit_provenance [OF prod.collapse [symmetric] ok1 body1] new by simp
  have 2: "\<exists>v. rows (snd (submitArticle w_edited r_resubmit_bob 1600000000000000000)) TVersion
           (req_id r_resubmit_bob @ '':'' @ FormatInt (UnixNano 1600000000000000000)) = Some v \<and>
        RevisedAt v = Some (JSONTime_wire 1600000000000000000) \<and>
        RevisedBy v = req_user r_resubmit_bob \<and>
        CreatedAt v = Some 1500000000123000000 \<and> CreatedBy v = ''ann''"
    using submit_provenance [OF prod.collapse [symmetric] ok2 body2] old wire_t by simp
  show ?thesis
    using ok1 ok2 1 2 by blast
qed

text \<open>
  The claim as the spec words it fails on this run. The first version of \<^verbatim>\<open>g\<close> has
  \<open>CreatedAt\<close> 1500000000.123 s; \<^verbatim>\<open>bob\<close> opens it for editing, and the draft carries
  that \<open>CreatedAt\<close> and the \<open>FromVersion\<close> of the first version. He submits with a body
  that holds the guid and the headline only, as a save does. The submit returns 200 and
  the second version of the article has \<open>CreatedAt\<close> 1600000000 s and no \<open>RevisedAt\<close>.
\<close>

theorem createdAt_overwritten_counterexample:
  "map_option CreatedAt (rows w_v1 TVersion ''g:1500000000123456789'')
     = Some (Some 1500000000123000000) \<and>
   map_option CreatedAt (rows w_edited TDraft ''g'') = Some (Some 1500000000123000000) \<and>
   map_option FromVersion (rows w_edited TDraft ''g'') = Some 1500000000123456789 \<and>
   Status (fst (submitArticle w_edited r_submit_bob 1600000000000000000)) = 200 \<and>
   map_option CreatedAt
     (rows (snd (submitArticle w_edited r_submit_bob 1600000000000000000)) TVersion
        ''g:1600000000000000000'') = Some (Some 1600000000000000000) \<and>
   map_option RevisedAt
     (rows (snd (submitArticle w_edited r_submit_bob 1600000000000000000)) TVersion
        ''g:1600000000000000000'') = Some None"
  by (simp add: w_edited_def eval_defs fixture_defs)

subsection \<open>edit\<close>

text \<open>
  Claim C4, at an input where the code departs from it. \<^verbatim>\<open>bob\<close> asks to edit the
  first version of \<^verbatim>\<open>g\<close> while a draft of \<^verbatim>\<open>g\<close> is open, so the create reports
  "not created". In \<open>w_race\<close> another instance discards that draft before the reload: the
  reload answers 404, and the handler panics on the nil \<^verbatim>\<open>article\<close> of line 470
  instead of returning 409 with the guid. In \<open>w_conflict\<close> nothing interferes and the
  handler returns 409 with the identity of the draft that is there.
\<close>

theorem edit_reload_race_panics:
  "fst (editArticle w_race r_edit_bob) = Panic \<and>
   calls (snd (editArticle w_race r_edit_bob)) =
     [GetCall TVersion ''g:1500000000123456789'', IndexCall TDraft ''g'',
      GetCall TDraft ''g''] \<and>
   fst (editArticle w_conflict r_edit_bob) =
     Return (CreateRespData 409
       (Json (Article0\<lparr>ArtId := ''g'', Guid := ''g'', LockedBy := ''ann''\<rparr>)))"
  by (simp add: eval_defs fixture_defs)

subsection \<open>publish\<close>

text \<open>
  Claim C3, at an input where the code departs from it. Both versions of \<^verbatim>\<open>g\<close> are
  stored; the first has a summary and a note, the second has neither. The first is
  published, then the second. Both calls return 200. The second reaches a Publish row
  that exists, so its document is merged into the row, and the document has no key for
  an empty field: the row ends with the id \<^verbatim>\<open>g\<close> and the fields of the second version,
  but with the summary and the note of the first.
\<close>

theorem publish_keeps_stale_fields:
  "Status (fst (publishArticle w_versions r_publish_1)) = 200 \<and>
   Status (fst (publishArticle (snd (publishArticle w_versions r_publish_1)) r_publish_2))
     = 200 \<and>
   rows (snd (publishArticle (snd (publishArticle w_versions r_publish_1)) r_publish_2))
     TPublish ''g'' = Some (version_2\<lparr>ArtId := ''g'', Summary := ''s1'', Note := ''n1''\<rparr>) \<and>
   Summary version_2 = [] \<and> Note version_2 = []"
  by (simp add: eval_defs fixture_defs)

end
